theory Spec2Isabelle
  imports Complex_Main "HOL-Library.Signed_Division"
begin

unbundle bit_operations_syntax

section \<open>IEEE 754 binary64 arithmetic\<close>

text \<open>
  A C \<^verbatim>\<open>double\<close> is an IEEE 754 binary64 number, and the arithmetic of the source is
  evaluated in that format (\<^verbatim>\<open>FLT_EVAL_METHOD\<close> 0, as on x86-64 and AArch64), in the
  default rounding direction, to nearest with ties to even. This section is the model
  of that arithmetic and of the C library functions the source calls on doubles; it
  is not code of the repository.

  \<open>Fin sg m e\<close> is the number \<open>(-1)\<^sup>s\<^sup>g \<times> m \<times> 2\<^sup>e\<close> with \<open>m\<close> odd, or \<open>m = 0\<close> and
  \<open>e = 0\<close> for the two zeros; \<open>Inf sg\<close> is an infinity, \<open>NaN\<close> a not-a-number.
\<close>

datatype double = Fin bool int int | Inf bool | NaN

function bit_length :: "int \<Rightarrow> nat" where
  "bit_length n = (if n \<le> 0 then 0 else Suc (bit_length (n div 2)))"
  by pat_completeness auto
termination
  by (relation "measure nat") auto

function strip_zeros :: "int \<Rightarrow> int \<Rightarrow> int \<times> int" where
  "strip_zeros m e =
     (if m \<le> 0 then (0, 0)
      else if even m then strip_zeros (m div 2) (e + 1)
      else (m, e))"
  by pat_completeness auto
termination
  by (relation "measure (\<lambda>(m, e). nat m)") auto

definition mk_fin :: "bool \<Rightarrow> int \<Rightarrow> int \<Rightarrow> double" where
  "mk_fin sg m e = (case strip_zeros m e of (m', e') \<Rightarrow> Fin sg m' e')"

text \<open>The doubles among the values of the datatype: 53 bits of mantissa, the last of
  them worth at least \<open>2\<^sup>-\<^sup>1\<^sup>0\<^sup>7\<^sup>4\<close>, and a magnitude below \<open>2\<^sup>1\<^sup>0\<^sup>2\<^sup>4\<close>.\<close>

definition is_double :: "double \<Rightarrow> bool" where
  "is_double d =
     (case d of
        Fin sg m e \<Rightarrow>
          (m = 0 \<and> e = 0) \<or>
          (0 < m \<and> odd m \<and> m < 2 ^ 53 \<and> - 1074 \<le> e \<and> int (bit_length m) + e \<le> 1024)
      | _ \<Rightarrow> True)"

definition is_finite :: "double \<Rightarrow> bool" where
  "is_finite d = (case d of Fin sg m e \<Rightarrow> True | _ \<Rightarrow> False)"

text \<open>
  \<open>round_even sg m e\<close> is the double nearest to \<open>m \<times> 2\<^sup>e\<close> (for \<open>m \<ge> 0\<close>), with the
  sign \<open>sg\<close>: \<open>ulp\<close> is the exponent of the last mantissa bit the format keeps at this
  magnitude; the bits below it are rounded away, a tie going to the even neighbour;
  a result of \<open>2\<^sup>1\<^sup>0\<^sup>2\<^sup>4\<close> or more is an infinity.
\<close>

definition round_even :: "bool \<Rightarrow> int \<Rightarrow> int \<Rightarrow> double" where
  "round_even sg m e =
     (if m \<le> 0 then Fin sg 0 0
      else
        let ulp = max (int (bit_length m) + e - 53) (- 1074) in
        if ulp \<le> e then
          (if int (bit_length m) + e > 1024 then Inf sg else mk_fin sg m e)
        else
          let d = nat (ulp - e);
              q = m div 2 ^ d;
              r = m mod 2 ^ d;
              half = 2 ^ (d - 1);
              q' = (if r > half \<or> (r = half \<and> odd q) then q + 1 else q)
          in if int (bit_length q') + ulp > 1024 then Inf sg else mk_fin sg q' ulp)"

text \<open>
  \<open>round_ratio sg a b\<close> is the double nearest to \<open>a / b\<close> (for \<open>a \<ge> 0\<close>, \<open>b > 0\<close>): the
  quotient is developed to at least 55 bits and one more bit records whether anything
  is left, which is all that rounding to 53 bits needs.
\<close>

definition round_ratio :: "bool \<Rightarrow> int \<Rightarrow> int \<Rightarrow> double" where
  "round_ratio sg a b =
     (if a \<le> 0 then Fin sg 0 0
      else
        let k = nat (int (bit_length b) + 55 - int (bit_length a));
            q = (a * 2 ^ k) div b;
            r = (a * 2 ^ k) mod b
        in round_even sg (2 * q + (if r = 0 then 0 else 1)) (- int k - 1))"

definition signed :: "bool \<Rightarrow> int \<Rightarrow> int" where
  "signed sg m = (if sg then - m else m)"

fun fneg :: "double \<Rightarrow> double" where
  "fneg (Fin sg m e) = Fin (\<not> sg) m e"
| "fneg (Inf sg) = Inf (\<not> sg)"
| "fneg NaN = NaN"

fun fabs :: "double \<Rightarrow> double" where
  "fabs (Fin sg m e) = Fin False m e"
| "fabs (Inf sg) = Inf False"
| "fabs NaN = NaN"

fun fadd :: "double \<Rightarrow> double \<Rightarrow> double" where
  "fadd (Fin s1 m1 e1) (Fin s2 m2 e2) =
     (let e = min e1 e2;
          r = signed s1 m1 * 2 ^ nat (e1 - e) + signed s2 m2 * 2 ^ nat (e2 - e)
      in if r = 0 then Fin (s1 \<and> s2) 0 0 else round_even (r < 0) \<bar>r\<bar> e)"
| "fadd (Inf a) (Inf b) = (if a = b then Inf a else NaN)"
| "fadd (Inf a) (Fin s2 m2 e2) = Inf a"
| "fadd (Fin s1 m1 e1) (Inf b) = Inf b"
| "fadd NaN y = NaN"
| "fadd x NaN = NaN"

definition fsub :: "double \<Rightarrow> double \<Rightarrow> double" where
  "fsub x y = fadd x (fneg y)"

fun fmul :: "double \<Rightarrow> double \<Rightarrow> double" where
  "fmul (Fin s1 m1 e1) (Fin s2 m2 e2) = round_even (s1 \<noteq> s2) (m1 * m2) (e1 + e2)"
| "fmul (Inf a) (Inf b) = Inf (a \<noteq> b)"
| "fmul (Inf a) (Fin s2 m2 e2) = (if m2 = 0 then NaN else Inf (a \<noteq> s2))"
| "fmul (Fin s1 m1 e1) (Inf b) = (if m1 = 0 then NaN else Inf (s1 \<noteq> b))"
| "fmul NaN y = NaN"
| "fmul x NaN = NaN"

fun fdiv :: "double \<Rightarrow> double \<Rightarrow> double" where
  "fdiv (Fin s1 m1 e1) (Fin s2 m2 e2) =
     (if m2 = 0 then (if m1 = 0 then NaN else Inf (s1 \<noteq> s2))
      else
        let e = min e1 e2
        in round_ratio (s1 \<noteq> s2) (m1 * 2 ^ nat (e1 - e)) (m2 * 2 ^ nat (e2 - e)))"
| "fdiv (Inf a) (Inf b) = NaN"
| "fdiv (Inf a) (Fin s2 m2 e2) = Inf (a \<noteq> s2)"
| "fdiv (Fin s1 m1 e1) (Inf b) = Fin (s1 \<noteq> b) 0 0"
| "fdiv NaN y = NaN"
| "fdiv x NaN = NaN"

text \<open>The integer square root, one bit at a time from bit \<open>k - 1\<close> down.\<close>

fun isqrt_aux :: "int \<Rightarrow> nat \<Rightarrow> int \<Rightarrow> int" where
  "isqrt_aux n k r =
     (if k = 0 then r
      else
        let r' = r + 2 ^ (k - 1)
        in if r' * r' \<le> n then isqrt_aux n (k - 1) r' else isqrt_aux n (k - 1) r)"

definition isqrt :: "int \<Rightarrow> int" where
  "isqrt n = isqrt_aux n ((bit_length n + 1) div 2) 0"

text \<open>
  \<^verbatim>\<open>sqrt\<close>, correctly rounded as IEEE 754 requires: the mantissa is scaled to at least
  111 bits with an even exponent, so that its integer square root has 56 bits, and
  one more bit records whether the root is inexact.
\<close>

fun fsqrt :: "double \<Rightarrow> double" where
  "fsqrt (Fin sg m e) =
     (if m = 0 then Fin sg 0 0
      else if sg then NaN
      else
        let k0 = 112 - bit_length m;
            k = (if even (e - int k0) then k0 else k0 + 1);
            n = m * 2 ^ k;
            r = isqrt n
        in round_even False (2 * r + (if r * r = n then 0 else 1)) ((e - int k) div 2 - 1))"
| "fsqrt (Inf sg) = (if sg then NaN else Inf False)"
| "fsqrt NaN = NaN"

text \<open>The comparisons of C: every comparison with a NaN is false, except \<^verbatim>\<open>!=\<close>;
  the two zeros are equal.\<close>

fun flt :: "double \<Rightarrow> double \<Rightarrow> bool" where
  "flt (Fin s1 m1 e1) (Fin s2 m2 e2) =
     (let e = min e1 e2
      in signed s1 m1 * 2 ^ nat (e1 - e) < signed s2 m2 * 2 ^ nat (e2 - e))"
| "flt (Inf a) (Inf b) = (a \<and> \<not> b)"
| "flt (Inf a) (Fin s2 m2 e2) = a"
| "flt (Fin s1 m1 e1) (Inf b) = (\<not> b)"
| "flt NaN y = False"
| "flt x NaN = False"

fun feq :: "double \<Rightarrow> double \<Rightarrow> bool" where
  "feq (Fin s1 m1 e1) (Fin s2 m2 e2) =
     (let e = min e1 e2
      in signed s1 m1 * 2 ^ nat (e1 - e) = signed s2 m2 * 2 ^ nat (e2 - e))"
| "feq (Inf a) (Inf b) = (a = b)"
| "feq (Inf a) (Fin s2 m2 e2) = False"
| "feq (Fin s1 m1 e1) (Inf b) = False"
| "feq NaN y = False"
| "feq x NaN = False"

definition fgt :: "double \<Rightarrow> double \<Rightarrow> bool" where
  "fgt x y = flt y x"

definition fne :: "double \<Rightarrow> double \<Rightarrow> bool" where
  "fne x y = (\<not> feq x y)"

text \<open>The exact value of a finite double, for stating what a result is.\<close>

fun valof :: "double \<Rightarrow> rat" where
  "valof (Fin sg m e) =
     (if 0 \<le> e then of_int (signed sg m * 2 ^ nat e)
      else of_int (signed sg m) / of_int (2 ^ nat (- e)))"
| "valof (Inf sg) = 0"
| "valof NaN = 0"

subsection \<open>Conversions between \<^verbatim>\<open>int\<close> and \<^verbatim>\<open>double\<close>\<close>

definition INT_MAX :: int where "INT_MAX = 2147483647"
definition INT_MIN :: int where "INT_MIN = - 2147483648"

text \<open>An \<^verbatim>\<open>int\<close> converts exactly.\<close>

definition double_of_int :: "int \<Rightarrow> double" where
  "double_of_int i = round_even (i < 0) \<bar>i\<bar> 0"

text \<open>
  The result of an \<^verbatim>\<open>int\<close> operation that left the range of \<^verbatim>\<open>int\<close>. ISO C leaves
  it undefined; the model takes the two's complement result that the machines in
  question compute.
\<close>

definition wrap_int :: "int \<Rightarrow> int" where
  "wrap_int i = (i + 2 ^ 31) mod 2 ^ 32 - 2 ^ 31"

text \<open>
  The conversion of a double to \<^verbatim>\<open>int\<close> discards the fraction. For a NaN, an
  infinity or a value out of range ISO C leaves the result undefined; the model takes
  what the conversion instruction of x86-64 delivers, \<^verbatim>\<open>INT_MIN\<close>.
\<close>

fun int_of_double :: "double \<Rightarrow> int" where
  "int_of_double (Fin sg m e) =
     (let t = signed sg (if 0 \<le> e then m * 2 ^ nat e else m div 2 ^ nat (- e))
      in if INT_MIN \<le> t \<and> t \<le> INT_MAX then t else INT_MIN)"
| "int_of_double (Inf sg) = INT_MIN"
| "int_of_double NaN = INT_MIN"

subsection \<open>\<^verbatim>\<open>ceil\<close>, \<^verbatim>\<open>floor\<close>, \<^verbatim>\<open>round\<close> and \<^verbatim>\<open>pow\<close> of math.h\<close>

text \<open>All three keep the sign of their argument, also on a zero result.\<close>

fun c_floor :: "double \<Rightarrow> double" where
  "c_floor (Fin sg m e) =
     (if 0 \<le> e then Fin sg m e
      else
        let q = m div 2 ^ nat (- e); r = m mod 2 ^ nat (- e)
        in mk_fin sg (if sg \<and> r \<noteq> 0 then q + 1 else q) 0)"
| "c_floor (Inf sg) = Inf sg"
| "c_floor NaN = NaN"

fun c_ceil :: "double \<Rightarrow> double" where
  "c_ceil (Fin sg m e) =
     (if 0 \<le> e then Fin sg m e
      else
        let q = m div 2 ^ nat (- e); r = m mod 2 ^ nat (- e)
        in mk_fin sg (if \<not> sg \<and> r \<noteq> 0 then q + 1 else q) 0)"
| "c_ceil (Inf sg) = Inf sg"
| "c_ceil NaN = NaN"

text \<open>\<^verbatim>\<open>round\<close> rounds to the nearest integer, halfway cases away from zero,
  whatever the rounding direction of the floating-point environment is (C11 7.12.9.6).\<close>

fun c_round :: "double \<Rightarrow> double" where
  "c_round (Fin sg m e) =
     (if 0 \<le> e then Fin sg m e
      else
        let q = m div 2 ^ nat (- e); r = m mod 2 ^ nat (- e)
        in mk_fin sg (if 2 * r \<ge> 2 ^ nat (- e) then q + 1 else q) 0)"
| "c_round (Inf sg) = Inf sg"
| "c_round NaN = NaN"

text \<open>The source calls \<^verbatim>\<open>pow\<close> with the exponent 2 only; the square is taken as
  correctly rounded.\<close>

definition pow2 :: "double \<Rightarrow> double" where
  "pow2 x = fmul x x"

subsection \<open>\<^verbatim>\<open>sprintf\<close> and \<^verbatim>\<open>atof\<close>\<close>

text \<open>The ten digit characters, in order; a digit is printed by its position and read
  back by looking it up.\<close>

definition digit_chars :: string where
  "digit_chars = ''0123456789''"

definition digit_char :: "nat \<Rightarrow> char" where
  "digit_char d = digit_chars ! (d mod 10)"

definition digit_val :: "char \<Rightarrow> nat option" where
  "digit_val c = map_of (zip digit_chars [0..<10]) c"

text \<open>\<open>digits_of n k acc\<close> puts the last \<open>k\<close> decimal digits of \<open>n\<close> in front of \<open>acc\<close>.\<close>

fun digits_of :: "int \<Rightarrow> nat \<Rightarrow> string \<Rightarrow> string" where
  "digits_of n k acc =
     (if k = 0 then acc
      else digits_of (n div 10) (k - 1) (digit_char (nat (n mod 10)) # acc))"

function num_digits :: "int \<Rightarrow> nat" where
  "num_digits n = (if n < 10 then 1 else Suc (num_digits (n div 10)))"
  by pat_completeness auto
termination
  by (relation "measure nat") auto

text \<open>The decimal numeral of \<open>n \<ge> 0\<close>, as \<^verbatim>\<open>%d\<close> prints it.\<close>

definition decimal :: "int \<Rightarrow> string" where
  "decimal n = digits_of n (num_digits n) []"

text \<open>
  \<open>format_f p x\<close> is what \<^verbatim>\<open>%.pf\<close> prints for \<open>x\<close>: the exact value of the double
  rounded to \<open>p\<close> decimal places (glibc rounds the exact value in the current rounding
  direction, here to nearest, ties to even), with a minus sign for a negative number
  and for the negative zero.
\<close>

fun format_f :: "nat \<Rightarrow> double \<Rightarrow> string" where
  "format_f p (Fin sg m e) =
     (let n = m * 10 ^ p;
          D = (if 0 \<le> e then n * 2 ^ nat e
               else
                 let d = nat (- e); q = n div 2 ^ d; r = n mod 2 ^ d; half = 2 ^ (d - 1)
                 in if r > half \<or> (r = half \<and> odd q) then q + 1 else q)
      in (if sg then ''-'' else []) @ decimal (D div 10 ^ p) @
         (if p = 0 then [] else ''.'' @ digits_of (D mod 10 ^ p) p []))"
| "format_f p (Inf sg) = (if sg then ''-inf'' else ''inf'')"
| "format_f p NaN = ''nan''"

fun read_digits :: "string \<Rightarrow> int \<Rightarrow> nat \<Rightarrow> int \<times> nat \<times> string" where
  "read_digits [] acc n = (acc, n, [])"
| "read_digits (c # cs) acc n =
     (case digit_val c of
        Some d \<Rightarrow> read_digits cs (10 * acc + int d) (Suc n)
      | None \<Rightarrow> (acc, n, c # cs))"

text \<open>
  \<^verbatim>\<open>sprintf(buf, fmt, val)\<close> for the formats the source builds, \<^verbatim>\<open>%.\<close>\<open>p\<close>\<^verbatim>\<open>f\<close>. Any
  other format is copied as it is.
\<close>

definition sprintf_double :: "string \<Rightarrow> double \<Rightarrow> string" where
  "sprintf_double fmt val =
     (case fmt of
        c1 # c2 # rest \<Rightarrow>
          (if c1 = CHR ''%'' \<and> c2 = CHR ''.'' then
             (case read_digits rest 0 0 of
                (p, n, conv) \<Rightarrow> if conv = ''f'' then format_f (nat p) val else fmt)
           else fmt)
      | _ \<Rightarrow> fmt)"

text \<open>
  \<^verbatim>\<open>atof\<close> on decimal text without exponent, which is all that \<^verbatim>\<open>%.pf\<close> prints: an
  optional sign, then \<^verbatim>\<open>inf\<close>, \<^verbatim>\<open>nan\<close>, or digits with an optional fraction. The
  decimal number is converted to the nearest double. Text that starts with none of
  these converts to 0.
\<close>

definition atof_unsigned :: "bool \<Rightarrow> string \<Rightarrow> double" where
  "atof_unsigned sg str =
     (if take 3 str = ''inf'' then Inf sg
      else if take 3 str = ''nan'' then NaN
      else
        (case read_digits str 0 0 of
           (ip, n1, rest) \<Rightarrow>
             (case rest of
                c # cs \<Rightarrow>
                  (if c = CHR ''.'' then
                     (case read_digits cs ip 0 of
                        (D, n2, rest') \<Rightarrow>
                          if n1 = 0 \<and> n2 = 0 then Fin False 0 0
                          else round_ratio sg D (10 ^ n2))
                   else if n1 = 0 then Fin False 0 0 else round_ratio sg ip 1)
              | [] \<Rightarrow> if n1 = 0 then Fin False 0 0 else round_ratio sg ip 1)))"

definition atof :: "string \<Rightarrow> double" where
  "atof str =
     (case str of
        c # cs \<Rightarrow>
          (if c = CHR ''-'' then atof_unsigned True cs
           else if c = CHR ''+'' then atof_unsigned False cs
           else atof_unsigned False str)
      | [] \<Rightarrow> Fin False 0 0)"

section \<open>Harklemath: the program state\<close>

text \<open>
  Harklemath.c is C. Its functions communicate through return values, through
  out-parameters, through two function-local \<^verbatim>\<open>static\<close> variables, through the
  floating-point environment and through the error report of \<^verbatim>\<open>HARKLE_ERROR\<close>.
  All of this is explicit state here: every function that touches any of it takes an
  \<open>hm_state\<close> and returns the new one.

  A C \<^verbatim>\<open>int\<close> is modelled as an \<open>int\<close>; where the arithmetic of the source can leave
  the 32-bit range the model says so at that place (\<open>wrap_int\<close>).
\<close>

text \<open>The struct \<^verbatim>\<open>hmLineLen\<close> of Harklemath.h.\<close>

record hmLineLen =
  xCoord :: int
  yCoord :: int
  dist :: double

text \<open>What the program writes to its diagnostic channel.\<close>

datatype report =
  HarkleError string string string
| Stderr string

text \<open>
  \<^item> \<open>reports\<close>: everything reported so far, oldest first;
  \<^item> \<open>fe_round\<close>: the rounding direction of the floating-point environment
    (\<^verbatim>\<open>fegetround\<close>, \<^verbatim>\<open>fesetround\<close>);
  \<^item> \<open>cp_maxPrec\<close>: \<^verbatim>\<open>static int maxPrec\<close> of \<^verbatim>\<open>calc_precision\<close>;
  \<^item> \<open>cmp_retVal\<close>: \<^verbatim>\<open>static int retVal\<close> of \<^verbatim>\<open>calc_max_precision\<close>;
  \<^item> \<open>int_mem\<close>: the \<^verbatim>\<open>int\<close> objects that \<^verbatim>\<open>int*\<close> out-parameters point to, by address;
  \<^item> \<open>line_mem\<close>: the \<^verbatim>\<open>hmLineLen\<close> objects that \<^verbatim>\<open>hmLineLen_ptr\<close> parameters
    point to, by address;
  \<^item> \<open>calloc_fail\<close>: how many of the coming calls of \<^verbatim>\<open>calloc\<close> return \<^verbatim>\<open>NULL\<close>.
  A pointer is an \<open>nat option\<close>: \<open>None\<close> is \<^verbatim>\<open>NULL\<close>, \<open>Some a\<close> the address \<open>a\<close>.
\<close>

record hm_state =
  reports :: "report list"
  fe_round :: int
  cp_maxPrec :: int
  cmp_retVal :: int
  int_mem :: "nat \<Rightarrow> int"
  line_mem :: "nat \<Rightarrow> hmLineLen"
  calloc_fail :: nat

text \<open>
  The ways in which a call does not come back with a value: a loop that does not end,
  a write through a null pointer, a write behind the end of an array.
\<close>

datatype fault = Diverges | NullDereference | BufferOverflow

text \<open>
  Modelled from the spec: the macro \<^verbatim>\<open>HARKLE_ERROR\<close> of Harklerror.h, which is not
  part of the sources at hand. The specification describes it as reporting a tagged
  (component, operation, reason) triple, advisory only, never aborting the caller.
\<close>

definition HARKLE_ERROR :: "string \<Rightarrow> string \<Rightarrow> string \<Rightarrow> hm_state \<Rightarrow> hm_state" where
  "HARKLE_ERROR cmpnt func msg s = s\<lparr>reports := reports s @ [HarkleError cmpnt func msg]\<rparr>"

definition fprintf_stderr :: "string \<Rightarrow> hm_state \<Rightarrow> hm_state" where
  "fprintf_stderr msg s = s\<lparr>reports := reports s @ [Stderr msg]\<rparr>"

subsection \<open>Constants of the headers\<close>

text \<open>The rounding directions of fenv.h, with the values of glibc on x86-64, and the
  names Harklemath.h gives them.\<close>

definition FE_TONEAREST :: int where "FE_TONEAREST = 0"
definition FE_DOWNWARD :: int where "FE_DOWNWARD = 1024"
definition FE_UPWARD :: int where "FE_UPWARD = 2048"
definition FE_TOWARDZERO :: int where "FE_TOWARDZERO = 3072"

definition HM_RND :: int where "HM_RND = FE_TONEAREST"
definition HM_UP :: int where "HM_UP = FE_UPWARD"
definition HM_DWN :: int where "HM_DWN = FE_DOWNWARD"
definition HM_IN :: int where "HM_IN = FE_TOWARDZERO"

definition HM_UP_LEFT :: int where "HM_UP_LEFT = 1"
definition HM_UP_RIGHT :: int where "HM_UP_RIGHT = 2"
definition HM_LOW_LEFT :: int where "HM_LOW_LEFT = 3"
definition HM_LOW_RIGHT :: int where "HM_LOW_RIGHT = 4"

definition DBL_PRECISION :: int where "DBL_PRECISION = 15"
definition HARKLEMATH_MAX_TRIES :: int where "HARKLEMATH_MAX_TRIES = 3"

text \<open>The literals \<^verbatim>\<open>0.0\<close>, \<^verbatim>\<open>1.0\<close>, \<^verbatim>\<open>-1.0\<close>, \<^verbatim>\<open>2\<close>, \<^verbatim>\<open>10.0\<close>, \<^verbatim>\<open>0.5\<close> and \<^verbatim>\<open>0.1\<close>; the
  last is the double nearest to one tenth.\<close>

definition d_zero :: double where "d_zero = Fin False 0 0"
definition d_one :: double where "d_one = Fin False 1 0"
definition d_minus_one :: double where "d_minus_one = Fin True 1 0"
definition d_two :: double where "d_two = Fin False 1 1"
definition d_ten :: double where "d_ten = Fin False 5 1"
definition d_half :: double where "d_half = Fin False 1 (- 1)"
definition d_tenth :: double where "d_tenth = round_ratio False 1 10"

text \<open>\<^verbatim>\<open>fesetround\<close> installs one of the four directions and returns 0; it refuses
  anything else.\<close>

definition fesetround :: "int \<Rightarrow> hm_state \<Rightarrow> int \<times> hm_state" where
  "fesetround mode s =
     (if mode = FE_TONEAREST \<or> mode = FE_DOWNWARD \<or> mode = FE_UPWARD \<or> mode = FE_TOWARDZERO
      then (0, s\<lparr>fe_round := mode\<rparr>) else (1, s))"

definition fegetround :: "hm_state \<Rightarrow> int" where
  "fegetround s = fe_round s"

section \<open>Local helper functions\<close>

text \<open>
  The two loops of \<^verbatim>\<open>calc_max_precision\<close>. Nothing in the source bounds them, so
  they are partial functions: \<open>None\<close> is the loop that does not end.
  \<^verbatim>\<open>while (num1 + num2 != num1) { ++counter; num2 = num2 / 10.0; }\<close>
\<close>

partial_function (option) cmp_calc_loop :: "double \<Rightarrow> double \<Rightarrow> int \<Rightarrow> int option" where
  "cmp_calc_loop num1 num2 counter =
     (if fne (fadd num1 num2) num1
      then cmp_calc_loop num1 (fdiv num2 d_ten) (wrap_int (counter + 1))
      else Some counter)"

text \<open>\<^verbatim>\<open>while (1) { result = num1 + num2; if (result == num1) break; ++counter;
  num2 = num2 / 10.0; }\<close>\<close>

partial_function (option) cmp_store_loop :: "double \<Rightarrow> double \<Rightarrow> int \<Rightarrow> int option" where
  "cmp_store_loop num1 num2 counter =
     (let result = fadd num1 num2
      in if feq result num1 then Some counter
         else cmp_store_loop num1 (fdiv num2 d_ten) (wrap_int (counter + 1)))"

declare cmp_calc_loop.simps [code] cmp_store_loop.simps [code]

text \<open>\<^verbatim>\<open>int calc_max_precision(void)\<close>: computed once, then kept in the static.\<close>

definition calc_max_precision :: "hm_state \<Rightarrow> fault + (int \<times> hm_state)" where
  "calc_max_precision s =
     (if cmp_retVal s = 0 then
        (case cmp_calc_loop d_one d_one 0 of
           None \<Rightarrow> Inl Diverges
         | Some counter1 \<Rightarrow>
             (case cmp_store_loop d_one d_one 0 of
                None \<Rightarrow> Inl Diverges
              | Some counter2 \<Rightarrow>
                  (let retVal = (if counter2 < counter1 then counter2 else counter1)
                   in Inr (retVal, s\<lparr>cmp_retVal := retVal\<rparr>))))
      else Inr (cmp_retVal s, s))"

text \<open>
  \<^verbatim>\<open>double truncate_double(double val, int digits)\<close>. The format is built with
  \<^verbatim>\<open>sprintf(format, "%%.%df", digits)\<close>; the value is printed into
  \<^verbatim>\<open>char dbleBuff[3 + DBL_MANT_DIG - DBL_MIN_EXP + 1]\<close>, 1078 bytes, and read back
  with \<^verbatim>\<open>atof\<close>. Text that, with its terminating zero byte, is longer than the
  buffer is written behind its end.
\<close>

definition dbleBuff_size :: nat where
  "dbleBuff_size = 3 + 53 + 1021 + 1"

definition truncate_double :: "double \<Rightarrow> int \<Rightarrow> hm_state \<Rightarrow> fault + (double \<times> hm_state)" where
  "truncate_double val digits s =
     (if digits = 0 then Inr (val, s)
      else if digits < 0 \<or> digits > 1074 then
        Inr (d_zero,
             HARKLE_ERROR ''Harklemath'' ''truncate_double'' ''Invalid number of digits'' s)
      else
        (let format = ''%.'' @ decimal digits @ ''f'';
             dbleBuff = sprintf_double format val
         in if length dbleBuff + 1 > dbleBuff_size then Inl BufferOverflow
            else Inr (atof dbleBuff, s)))"

section \<open>Floating point functions\<close>

text \<open>
  \<^verbatim>\<open>int round_a_dble(double roundMe, int rndDir)\<close>. The range check compares with
  \<^verbatim>\<open>(double)(INT_MAX * 1.0)\<close> and \<^verbatim>\<open>(double)(INT_MIN * 1.0)\<close>. For \<^verbatim>\<open>HM_RND\<close> and
  \<^verbatim>\<open>HM_IN\<close> the rounding direction of the environment is saved, set and restored;
  the rounding itself is \<^verbatim>\<open>round(ceil(x))\<close>, \<^verbatim>\<open>round(floor(x))\<close> or \<^verbatim>\<open>round(x)\<close>,
  converted to \<^verbatim>\<open>int\<close>.
\<close>

definition round_a_dble :: "double \<Rightarrow> int \<Rightarrow> hm_state \<Rightarrow> int \<times> hm_state" where
  "round_a_dble roundMe rndDir s =
     (let (success, s1) =
            (if fgt roundMe (fmul (double_of_int INT_MAX) d_one) then
               (False, HARKLE_ERROR ''Harklemath'' ''round_a_dble'' ''int overflow'' s)
             else if flt roundMe (fmul (double_of_int INT_MIN) d_one) then
               (False, HARKLE_ERROR ''Harklemath'' ''round_a_dble'' ''int underflow'' s)
             else (True, s));
          (restoreNeeded, currState, success2, s2) =
            (if success \<and> (rndDir = HM_RND \<or> rndDir = HM_IN) then
               (let currState = fegetround s1;
                    (rc, s') = fesetround rndDir s1
                in if rc \<noteq> 0 \<or> fegetround s' \<noteq> rndDir then
                     (True, currState, False,
                      HARKLE_ERROR ''Harklemath'' ''round_a_dble'' ''fesetround failed'' s')
                   else (True, currState, True, s'))
             else (False, 0, success, s1));
          retVal =
            (if success2 then
               (if rndDir = HM_UP then int_of_double (c_round (c_ceil roundMe))
                else if rndDir = HM_DWN then int_of_double (c_round (c_floor roundMe))
                else int_of_double (c_round roundMe))
             else 0);
          s3 =
            (if restoreNeeded then
               (let (rc, s') = fesetround currState s2
                in if rc \<noteq> 0 then
                     HARKLE_ERROR ''Harklemath'' ''round_a_dble'' ''fesetround failed'' s'
                   else s')
             else s2)
      in (retVal, s3))"

text \<open>\<^verbatim>\<open>while (currPrec > 0 && counter < currPrec) { retVal *= 0.1; counter++; }\<close>\<close>

function cp_mask_loop :: "int \<Rightarrow> int \<Rightarrow> double \<Rightarrow> double" where
  "cp_mask_loop currPrec counter retVal =
     (if currPrec > 0 \<and> counter < currPrec
      then cp_mask_loop currPrec (counter + 1) (fmul retVal d_tenth)
      else retVal)"
  by pat_completeness auto
termination
  by (relation "measure (\<lambda>(currPrec, counter, retVal). nat (currPrec - counter))") auto

text \<open>\<^verbatim>\<open>double calc_precision(int precision)\<close>\<close>

definition calc_precision :: "int \<Rightarrow> hm_state \<Rightarrow> fault + (double \<times> hm_state)" where
  "calc_precision precision s =
     (case (if cp_maxPrec s = 0 then
              (case calc_max_precision s of
                 Inl f \<Rightarrow> Inl f
               | Inr (mp, s1) \<Rightarrow>
                   (let s2 = s1\<lparr>cp_maxPrec := mp\<rparr>
                    in if mp = 0 then
                         Inr (False, HARKLE_ERROR ''Harklemath'' ''calc_precision''
                                       ''calc_max_precision failed'' s2)
                       else Inr (True, s2)))
            else Inr (True, s)) of
        Inl f \<Rightarrow> Inl f
      | Inr (success, s3) \<Rightarrow>
          (if success then
             (if precision < 1 then
                Inr (d_zero,
                     HARKLE_ERROR ''Harklemath'' ''calc_precision'' ''Invalid precision'' s3)
              else
                (let currPrec = (if precision > cp_maxPrec s3 then cp_maxPrec s3 else precision)
                 in Inr (cp_mask_loop currPrec 0 d_one, s3)))
           else Inr (d_zero, s3)))"

text \<open>
  \<^verbatim>\<open>bool dble_less_than(double x, double y, int precision)\<close>. The two truncations
  are the initialisers of \<^verbatim>\<open>xVal\<close> and \<^verbatim>\<open>yVal\<close> and run before the validation. The
  reports carry the tag \<^verbatim>\<open>dble_greater_than\<close>, as in the source.
\<close>

definition dble_less_than :: "double \<Rightarrow> double \<Rightarrow> int \<Rightarrow> hm_state \<Rightarrow> fault + (bool \<times> hm_state)" where
  "dble_less_than x y precision s =
     (case truncate_double x precision s of
        Inl f \<Rightarrow> Inl f
      | Inr (xVal, s1) \<Rightarrow>
          (case truncate_double y precision s1 of
             Inl f \<Rightarrow> Inl f
           | Inr (yVal, s2) \<Rightarrow>
               (if precision < 1 then
                  Inr (False,
                       HARKLE_ERROR ''Harklemath'' ''dble_greater_than'' ''Invalid precision'' s2)
                else
                  (case calc_precision precision s2 of
                     Inl f \<Rightarrow> Inl f
                   | Inr (dbleMask, s3) \<Rightarrow>
                       (if feq dbleMask d_zero then
                          Inr (False,
                               HARKLE_ERROR ''Harklemath'' ''dble_greater_than''
                                 ''calc_precision failed'' s3)
                        else Inr (flt xVal yVal, s3))))))"

text \<open>\<^verbatim>\<open>bool dble_equal_to(double x, double y, int precision)\<close>\<close>

definition dble_equal_to :: "double \<Rightarrow> double \<Rightarrow> int \<Rightarrow> hm_state \<Rightarrow> fault + (bool \<times> hm_state)" where
  "dble_equal_to x y precision s =
     (if precision < 1 then
        Inr (False, HARKLE_ERROR ''Harklemath'' ''dble_greater_than'' ''Invalid precision'' s)
      else
        (case calc_precision precision s of
           Inl f \<Rightarrow> Inl f
         | Inr (dbleMask, s1) \<Rightarrow>
             (if feq dbleMask d_zero then
                Inr (False,
                     HARKLE_ERROR ''Harklemath'' ''dble_greater_than''
                       ''calc_precision failed'' s1)
              else
                Inr (fgt (fadd x dbleMask) y \<and> flt (fsub x dbleMask) y \<and>
                     flt x (fadd y dbleMask) \<and> fgt x (fsub y dbleMask), s1))))"

text \<open>\<^verbatim>\<open>bool dble_not_equal(double x, double y, int precision)\<close>\<close>

definition dble_not_equal :: "double \<Rightarrow> double \<Rightarrow> int \<Rightarrow> hm_state \<Rightarrow> fault + (bool \<times> hm_state)" where
  "dble_not_equal x y precision s =
     (case dble_equal_to x y precision s of
        Inl f \<Rightarrow> Inl f
      | Inr (eq, s1) \<Rightarrow> Inr (if eq then False else True, s1))"

section \<open>Geometric functions\<close>

text \<open>\<^verbatim>\<open>double calc_ellipse_x_coord(double aVal, double bVal, double yVal)\<close>; the
  checks are the plain comparisons \<^verbatim>\<open>DBL_EQUAL\<close> and \<^verbatim>\<open>DBL_GRTR\<close>, the reports carry the
  tag and text of the sibling, as in the source.\<close>

definition calc_ellipse_x_coord :: "double \<Rightarrow> double \<Rightarrow> double \<Rightarrow> hm_state \<Rightarrow> double \<times> hm_state" where
  "calc_ellipse_x_coord aVal bVal yVal s =
     (if feq aVal d_zero then
        (d_zero, HARKLE_ERROR ''Harklemath'' ''calc_ellipse_y_coord'' ''aVal is zero'' s)
      else if feq bVal d_zero then
        (d_zero, HARKLE_ERROR ''Harklemath'' ''calc_ellipse_y_coord'' ''bVal is zero'' s)
      else if fgt yVal bVal then
        (d_zero,
         HARKLE_ERROR ''Harklemath'' ''calc_ellipse_y_coord'' ''xVal is greater than aVal'' s)
      else
        (let x1 = fmul bVal bVal;
             x2 = fsub x1 (fmul yVal yVal);
             x3 = fsqrt x2;
             x4 = fmul x3 aVal;
             x5 = fdiv x4 bVal
         in (fabs x5, s)))"

text \<open>\<^verbatim>\<open>double calc_ellipse_y_coord(double aVal, double bVal, double xVal)\<close>\<close>

definition calc_ellipse_y_coord :: "double \<Rightarrow> double \<Rightarrow> double \<Rightarrow> hm_state \<Rightarrow> double \<times> hm_state" where
  "calc_ellipse_y_coord aVal bVal xVal s =
     (if feq aVal d_zero then
        (d_zero, HARKLE_ERROR ''Harklemath'' ''calc_ellipse_y_coord'' ''aVal is zero'' s)
      else if feq bVal d_zero then
        (d_zero, HARKLE_ERROR ''Harklemath'' ''calc_ellipse_y_coord'' ''bVal is zero'' s)
      else if fgt xVal aVal then
        (d_zero,
         HARKLE_ERROR ''Harklemath'' ''calc_ellipse_y_coord'' ''xVal is greater than aVal'' s)
      else
        (let y1 = fmul aVal aVal;
             y2 = fsub y1 (fmul xVal xVal);
             y3 = fsqrt y2;
             y4 = fmul y3 bVal;
             y5 = fdiv y4 aVal
         in (fabs y5, s)))"

text \<open>\<^verbatim>\<open>retVal[count] = v\<close>: through a null pointer, behind the end of the array, or
  into it.\<close>

definition store_at :: "double list option \<Rightarrow> int \<Rightarrow> double \<Rightarrow> fault + double list" where
  "store_at arr i v =
     (case arr of
        None \<Rightarrow> Inl NullDereference
      | Some xs \<Rightarrow>
          if 0 \<le> i \<and> i < int (length xs) then Inr (xs[nat i := v]) else Inl BufferOverflow)"

text \<open>
  The loop \<^verbatim>\<open>while (count < numPoints)\<close> of \<^verbatim>\<open>plot_ellipse_points\<close>, with the
  variables it changes: \<^verbatim>\<open>count\<close>, \<^verbatim>\<open>majPnt\<close>, \<^verbatim>\<open>flipIt\<close> and the array. When \<^verbatim>\<open>x\<close>
  is the major axis an iteration stores two values and advances \<^verbatim>\<open>count\<close> twice; when
  \<^verbatim>\<open>y\<close> is, the source advances \<^verbatim>\<open>count\<close> once only.
\<close>

function pep_loop ::
  "bool \<Rightarrow> double \<Rightarrow> double \<Rightarrow> int \<Rightarrow> int \<Rightarrow> int \<Rightarrow> double \<Rightarrow> double \<Rightarrow> double list option \<Rightarrow>
   hm_state \<Rightarrow> fault + (double list option \<times> hm_state)" where
  "pep_loop chooseX aAbs bAbs majAbs numPoints count majPnt flipIt retVal s =
     (if count < numPoints then
        (if chooseX then
           (let majPnt1 = (if 0 = count then double_of_int (wrap_int (- 1 * majAbs)) else majPnt)
            in case store_at retVal count majPnt1 of
                 Inl f \<Rightarrow> Inl f
               | Inr arr1 \<Rightarrow>
                   (let count1 = count + 1;
                        (yv, s1) = calc_ellipse_y_coord aAbs bAbs majPnt1 s
                    in case store_at (Some arr1) count1 (fmul flipIt yv) of
                         Inl f \<Rightarrow> Inl f
                       | Inr arr2 \<Rightarrow>
                           (let count2 = count1 + 1
                            in if count2 > numPoints sdiv 2 then
                                 pep_loop chooseX aAbs bAbs majAbs numPoints count2
                                   (fsub majPnt1 d_one) d_minus_one (Some arr2) s1
                               else
                                 pep_loop chooseX aAbs bAbs majAbs numPoints count2
                                   (fadd majPnt1 d_one) d_one (Some arr2) s1)))
         else
           (let majPnt1 = (if 0 = count then d_zero else majPnt);
                flipIt1 = (if 0 = count then d_minus_one else flipIt);
                (xv, s1) = calc_ellipse_x_coord aAbs bAbs majPnt1 s
            in case store_at retVal count (fmul flipIt1 xv) of
                 Inl f \<Rightarrow> Inl f
               | Inr arr1 \<Rightarrow>
                   (let count1 = count + 1
                    in case store_at (Some arr1) count1 majPnt1 of
                         Inl f \<Rightarrow> Inl f
                       | Inr arr2 \<Rightarrow>
                           (if count1 \<le> numPoints sdiv 4 then
                              pep_loop chooseX aAbs bAbs majAbs numPoints count1
                                (fadd majPnt1 d_one) d_minus_one (Some arr2) s1
                            else if count1 \<le> wrap_int (3 * numPoints) sdiv 4 then
                              pep_loop chooseX aAbs bAbs majAbs numPoints count1
                                (fsub majPnt1 d_one) d_one (Some arr2) s1
                            else
                              pep_loop chooseX aAbs bAbs majAbs numPoints count1
                                (fadd majPnt1 d_one) d_minus_one (Some arr2) s1))))
      else Inr (retVal, s))"
  by pat_completeness auto
termination
  by (relation "measure (\<lambda>(chooseX, aAbs, bAbs, majAbs, numPoints, count, rest).
        nat (numPoints - count))") auto

text \<open>
  \<^verbatim>\<open>calloc(numPoints, sizeof(double))\<close>: \<^verbatim>\<open>NULL\<close> as long as the state says so, then an
  array of \<open>numPoints\<close> zeros.
\<close>

definition calloc_doubles :: "int \<Rightarrow> hm_state \<Rightarrow> double list option \<times> hm_state" where
  "calloc_doubles n s =
     (if calloc_fail s > 0 then (None, s\<lparr>calloc_fail := calloc_fail s - 1\<rparr>)
      else (Some (replicate (nat n) d_zero), s))"

text \<open>\<^verbatim>\<open>while (numTries < HARKLEMATH_MAX_TRIES && !retVal) { retVal = calloc(...);
  numTries++; }\<close>\<close>

function pep_alloc :: "int \<Rightarrow> int \<Rightarrow> double list option \<Rightarrow> hm_state \<Rightarrow> double list option \<times> hm_state" where
  "pep_alloc numPoints numTries retVal s =
     (if numTries < HARKLEMATH_MAX_TRIES \<and> retVal = None then
        (let (r, s1) = calloc_doubles numPoints s
         in pep_alloc numPoints (numTries + 1) r s1)
      else (retVal, s))"
  by pat_completeness auto
termination
  by (relation "measure (\<lambda>(numPoints, numTries, retVal, s).
        nat (HARKLEMATH_MAX_TRIES - numTries))") auto


text \<open>
  \<^verbatim>\<open>bool determine_center(int width, int height, int* xCoord, int* yCoord, int orientWin)\<close>.
  The validation chain, the fallback of an unknown orientation to \<^verbatim>\<open>HM_UP_LEFT\<close>, the
  zeroing of both outputs before the computation and the two assignments are in the
  order of the source. \<open>sdiv\<close> is C's truncating division. For an even width the
  source computes \<^verbatim>\<open>width + 1\<close>; an even \<^verbatim>\<open>int\<close> is below \<^verbatim>\<open>INT_MAX\<close>, so this
  cannot overflow.
\<close>

definition determine_center ::
  "int \<Rightarrow> int \<Rightarrow> nat option \<Rightarrow> nat option \<Rightarrow> int \<Rightarrow> hm_state \<Rightarrow> bool \<times> hm_state" where
  "determine_center width height xCoord_ptr yCoord_ptr orientWin s =
    (if width < 3 then
       (False, HARKLE_ERROR ''Harklemath'' ''determine_center'' ''Invalid width'' s)
     else if height < 3 then
       (False, HARKLE_ERROR ''Harklemath'' ''determine_center'' ''Invalid height'' s)
     else
       (case (xCoord_ptr, yCoord_ptr) of
          (Some xa, Some ya) \<Rightarrow>
            (let s0 = s\<lparr>int_mem := (int_mem s)(xa := 0)\<rparr>;
                 s1 = s0\<lparr>int_mem := (int_mem s0)(ya := 0)\<rparr>;
                 realOrientWin =
                   (if orientWin = HM_UP_LEFT \<or> orientWin = HM_UP_RIGHT \<or>
                       orientWin = HM_LOW_LEFT \<or> orientWin = HM_LOW_RIGHT
                    then orientWin else HM_UP_LEFT);
                 realWidth =
                   (if width AND 1 \<noteq> 0 then width
                    else if realOrientWin = HM_UP_RIGHT \<or> realOrientWin = HM_LOW_RIGHT
                    then width + 1 else width - 1);
                 s2 = s1\<lparr>int_mem := (int_mem s1)(xa := ((realWidth - 1) sdiv 2) + 1)\<rparr>;
                 realHeight =
                   (if height AND 1 \<noteq> 0 then height
                    else if realOrientWin = HM_LOW_LEFT \<or> realOrientWin = HM_LOW_RIGHT
                    then height + 1 else height - 1);
                 s3 = s2\<lparr>int_mem := (int_mem s2)(ya := ((realHeight - 1) sdiv 2) + 1)\<rparr>
             in (True, s3))
        | _ \<Rightarrow> (False, HARKLE_ERROR ''Harklemath'' ''determine_center'' ''NULL pointer'' s)))"

text \<open>\<^verbatim>\<open>double calc_int_point_dist(int xCoord1, int yCoord1, int xCoord2, int yCoord2)\<close>;
  the differences are \<^verbatim>\<open>int\<close> subtractions, converted to double for \<^verbatim>\<open>pow\<close>.\<close>

definition calc_int_point_dist :: "int \<Rightarrow> int \<Rightarrow> int \<Rightarrow> int \<Rightarrow> double" where
  "calc_int_point_dist xCoord1 yCoord1 xCoord2 yCoord2 =
     (if xCoord1 \<noteq> xCoord2 \<or> yCoord1 \<noteq> yCoord2 then
        fsqrt (fadd (pow2 (double_of_int (wrap_int (xCoord2 - xCoord1))))
                    (pow2 (double_of_int (wrap_int (yCoord2 - yCoord1)))))
      else d_zero)"

text \<open>Writes to the fields of the \<^verbatim>\<open>hmLineLen\<close> at an address.\<close>

definition set_xCoord :: "nat \<Rightarrow> int \<Rightarrow> hm_state \<Rightarrow> hm_state" where
  "set_xCoord a v s = s\<lparr>line_mem := (line_mem s)(a := (line_mem s a)\<lparr>xCoord := v\<rparr>)\<rparr>"

definition set_yCoord :: "nat \<Rightarrow> int \<Rightarrow> hm_state \<Rightarrow> hm_state" where
  "set_yCoord a v s = s\<lparr>line_mem := (line_mem s)(a := (line_mem s a)\<lparr>yCoord := v\<rparr>)\<rparr>"

definition set_dist :: "nat \<Rightarrow> double \<Rightarrow> hm_state \<Rightarrow> hm_state" where
  "set_dist a v s = s\<lparr>line_mem := (line_mem s)(a := (line_mem s a)\<lparr>dist := v\<rparr>)\<rparr>"

text \<open>\<^verbatim>\<open>abs\<close> of stdlib.h on an \<^verbatim>\<open>int\<close>.\<close>

definition c_abs :: "int \<Rightarrow> int" where
  "c_abs i = wrap_int \<bar>i\<bar>"

text \<open>
  \<^verbatim>\<open>bool determine_mid_point(hmLineLen_ptr point1_ptr, hmLineLen_ptr point2_ptr,
  hmLineLen_ptr midPoint_ptr, int rndDbl)\<close>. Every statement of the assignment phase
  reads the objects as they are at that moment, so a \<^verbatim>\<open>midPoint_ptr\<close> that is one of
  the two points behaves as in the source.
\<close>

definition determine_mid_point ::
  "nat option \<Rightarrow> nat option \<Rightarrow> nat option \<Rightarrow> int \<Rightarrow> hm_state \<Rightarrow> bool \<times> hm_state" where
  "determine_mid_point point1_ptr point2_ptr midPoint_ptr rndDbl s =
     (case point1_ptr of
        None \<Rightarrow>
          (False, HARKLE_ERROR ''Harkleswarm'' ''determine_mid_point'' ''Invalid point1_ptr'' s)
      | Some p1 \<Rightarrow>
     (case point2_ptr of
        None \<Rightarrow>
          (False, HARKLE_ERROR ''Harkleswarm'' ''determine_mid_point'' ''Invalid point2_ptr'' s)
      | Some p2 \<Rightarrow>
     (case midPoint_ptr of
        None \<Rightarrow>
          (False, HARKLE_ERROR ''Harkleswarm'' ''determine_mid_point'' ''Invalid midPoint_ptr'' s)
      | Some mp \<Rightarrow>
          if p1 = p2 then
            (False, HARKLE_ERROR ''Harkleswarm'' ''determine_mid_point''
                      ''Duplicate points do not have a midpoint'' s)
          else if xCoord (line_mem s p1) = xCoord (line_mem s p2) \<and>
                  yCoord (line_mem s p1) = yCoord (line_mem s p2) then
            (False, HARKLE_ERROR ''Harkleswarm'' ''determine_mid_point''
                      ''Duplicate coordinates do not have a midpoint'' s)
          else
            (let distance = calc_int_point_dist (xCoord (line_mem s p1)) (yCoord (line_mem s p1))
                              (xCoord (line_mem s p2)) (yCoord (line_mem s p2));
                 rawX = fmul d_half (double_of_int
                          (c_abs (wrap_int (xCoord (line_mem s p2) - xCoord (line_mem s p1)))));
                 rawY = fmul d_half (double_of_int
                          (c_abs (wrap_int (yCoord (line_mem s p2) - yCoord (line_mem s p1)))));
                 (rx, s1) = round_a_dble rawX rndDbl s;
                 s2 = set_xCoord mp rx s1;
                 s3 = (if xCoord (line_mem s2 p2) < xCoord (line_mem s2 p1)
                       then set_xCoord mp
                              (wrap_int (xCoord (line_mem s2 mp) + xCoord (line_mem s2 p2))) s2
                       else set_xCoord mp
                              (wrap_int (xCoord (line_mem s2 mp) + xCoord (line_mem s2 p1))) s2);
                 (ry, s4) = round_a_dble rawY rndDbl s3;
                 s5 = set_yCoord mp ry s4;
                 s6 = (if yCoord (line_mem s5 p2) < yCoord (line_mem s5 p1)
                       then set_yCoord mp
                              (wrap_int (yCoord (line_mem s5 mp) + yCoord (line_mem s5 p2))) s5
                       else set_yCoord mp
                              (wrap_int (yCoord (line_mem s5 mp) + yCoord (line_mem s5 p1))) s5);
                 s7 = set_dist mp (fdiv distance (double_of_int 2)) s6
             in (True, s7)))))"

text \<open>
  \<^verbatim>\<open>int solve_point_slope_y(int knownX1, int knownY1, int knownX0, double slope,
  int rndDbl)\<close>. The body computes \<^verbatim>\<open>unknownY0\<close> and ends; there is no \<^verbatim>\<open>return\<close>
  statement. The result is therefore an \<open>int option\<close>, and it is \<open>None\<close>: the call
  passes no value to its caller.
\<close>

definition solve_point_slope_y ::
  "int \<Rightarrow> int \<Rightarrow> int \<Rightarrow> double \<Rightarrow> int \<Rightarrow> hm_state \<Rightarrow> int option \<times> hm_state" where
  "solve_point_slope_y knownX1 knownY1 knownX0 slope rndDbl s =
     (let tempY0 = fadd (fmul slope (double_of_int (wrap_int (knownX0 - knownX1))))
                        (double_of_int knownY1);
          (unknownY0, s1) = round_a_dble tempY0 rndDbl s
      in (None, s1))"

text \<open>The sibling \<^verbatim>\<open>solve_point_slope_x\<close>, which does return its local.\<close>

definition solve_point_slope_x ::
  "int \<Rightarrow> int \<Rightarrow> int \<Rightarrow> double \<Rightarrow> int \<Rightarrow> hm_state \<Rightarrow> fault + (int option \<times> hm_state)" where
  "solve_point_slope_x knownX1 knownY1 knownY0 slope rndDbl s =
     (case dble_not_equal slope d_zero DBL_PRECISION s of
        Inl f \<Rightarrow> Inl f
      | Inr (ne, s1) \<Rightarrow>
          if ne then
            (let tempX0 = fadd (fdiv (double_of_int (wrap_int (knownY0 - knownY1))) slope)
                               (double_of_int knownX1);
                 (unknownX0, s2) = round_a_dble tempX0 rndDbl s1
             in Inr (Some unknownX0, s2))
          else Inr (Some 0, s1))"


section \<open>States\<close>

text \<open>The state in which a program starts: nothing reported, rounding to nearest, both
  statics zero, no allocation failure pending.\<close>

definition hm_init :: hm_state where
  "hm_init =
     \<lparr>reports = [], fe_round = FE_TONEAREST, cp_maxPrec = 0, cmp_retVal = 0,
      int_mem = (\<lambda>a. 0),
      line_mem = (\<lambda>a. \<lparr>xCoord = 0, yCoord = 0, dist = d_zero\<rparr>),
      calloc_fail = 0\<rparr>"

text \<open>A start state with the point (0, 0) at the addresses 1 and 3 and the point (4, 0)
  at the address 2.\<close>

definition two_points :: hm_state where
  "two_points =
     hm_init\<lparr>line_mem := (line_mem hm_init)(2 := \<lparr>xCoord = 4, yCoord = 0, dist = d_zero\<rparr>)\<rparr>"

text \<open>
  The two statics are local to their functions, so they hold what these functions put
  there: the initial 0 or the machine precision, which is 16 for binary64.
\<close>

definition statics_ok :: "hm_state \<Rightarrow> bool" where
  "statics_ok s =
     ((cmp_retVal s = 0 \<or> cmp_retVal s = 16) \<and> (cp_maxPrec s = 0 \<or> cp_maxPrec s = 16))"

section \<open>Notions for stating the properties\<close>

text \<open>
  What a call that found the statics in order leaves behind: the machine precision, 16,
  in the static of \<^verbatim>\<open>calc_precision\<close>, and in the static of
  \<^verbatim>\<open>calc_max_precision\<close> if that had to be called.
\<close>

definition warm :: "hm_state \<Rightarrow> hm_state" where
  "warm s =
     (if cp_maxPrec s = 0 then
        (if cmp_retVal s = 0 then s\<lparr>cmp_retVal := 16\<rparr> else s)\<lparr>cp_maxPrec := 16\<rparr>
      else s)"

text \<open>The mask for a precision of at least 1: the precision is cut off at 16 and
  that many factors \<^verbatim>\<open>0.1\<close> are multiplied up.\<close>

definition mask_of :: "int \<Rightarrow> double" where
  "mask_of p = cp_mask_loop (if p > 16 then 16 else p) 0 d_one"







section \<open>Properties\<close>

text \<open>
  Concrete arithmetic is evaluated by the kernel from the defining equations
  (\<open>code_simp\<close>); the simplifier is kept away from the recursive equations of the
  arithmetic, so that in the proofs about control flow the operations on doubles stay
  as they are.
\<close>

declare bit_length.simps [simp del] strip_zeros.simps [simp del] isqrt_aux.simps [simp del]
  digits_of.simps [simp del] num_digits.simps [simp del] cp_mask_loop.simps [simp del]
  pep_loop.simps [simp del] pep_alloc.simps [simp del]
  fadd.simps [simp del] fmul.simps [simp del] fdiv.simps [simp del] fsqrt.simps [simp del]
  flt.simps [simp del] feq.simps [simp del] int_of_double.simps [simp del]
  c_floor.simps [simp del] c_ceil.simps [simp del] c_round.simps [simp del]
  format_f.simps [simp del] fneg.simps [simp del] fabs.simps [simp del]
  valof.simps [simp del]

subsection \<open>The state\<close>

lemma HARKLE_ERROR_simps [simp]:
  "reports (HARKLE_ERROR c f m s) = reports s @ [HarkleError c f m]"
  "fe_round (HARKLE_ERROR c f m s) = fe_round s"
  "cp_maxPrec (HARKLE_ERROR c f m s) = cp_maxPrec s"
  "cmp_retVal (HARKLE_ERROR c f m s) = cmp_retVal s"
  "int_mem (HARKLE_ERROR c f m s) = int_mem s"
  "line_mem (HARKLE_ERROR c f m s) = line_mem s"
  "calloc_fail (HARKLE_ERROR c f m s) = calloc_fail s"
  by (simp_all add: HARKLE_ERROR_def)

lemma fprintf_stderr_simps [simp]:
  "reports (fprintf_stderr m s) = reports s @ [Stderr m]"
  "fe_round (fprintf_stderr m s) = fe_round s"
  "cp_maxPrec (fprintf_stderr m s) = cp_maxPrec s"
  "cmp_retVal (fprintf_stderr m s) = cmp_retVal s"
  "int_mem (fprintf_stderr m s) = int_mem s"
  "line_mem (fprintf_stderr m s) = line_mem s"
  "calloc_fail (fprintf_stderr m s) = calloc_fail s"
  by (simp_all add: fprintf_stderr_def)

lemma warm_simps [simp]:
  "reports (warm s) = reports s"
  "fe_round (warm s) = fe_round s"
  "int_mem (warm s) = int_mem s"
  "line_mem (warm s) = line_mem s"
  "calloc_fail (warm s) = calloc_fail s"
  by (simp_all add: warm_def)

lemma warm_statics [simp]:
  "statics_ok s \<Longrightarrow> cp_maxPrec (warm s) = 16"
  "statics_ok s \<Longrightarrow> statics_ok (warm s)"
  "statics_ok s \<Longrightarrow> warm (warm s) = warm s"
  by (auto simp: warm_def statics_ok_def)

lemma statics_ok_HARKLE_ERROR [simp]: "statics_ok (HARKLE_ERROR c f m s) = statics_ok s"
  by (simp add: statics_ok_def)


subsection \<open>The machine precision and the masks\<close>


















subsection \<open>The comparisons\<close>



text \<open>
  C3 fails on the code at \<open>x = 16\<close> with the precision 15 of \<^verbatim>\<open>DBL_PRECISION\<close>: the
  mask is below half the distance from 16 to the next double, so \<^verbatim>\<open>x + dbleMask\<close> is
  \<open>x\<close> again, \<^verbatim>\<open>(x + dbleMask) > y\<close> is false for \<open>y = x\<close>, and \<^verbatim>\<open>dble_equal_to\<close>
  answers false.
\<close>

theorem dble_equal_to_not_reflexive:
  "is_double (Fin False 1 4) \<and> is_finite (Fin False 1 4) \<and> valof (Fin False 1 4) = 16 \<and>
   fadd (Fin False 1 4) (mask_of 15) = Fin False 1 4 \<and>
   map_sum id fst (dble_equal_to (Fin False 1 4) (Fin False 1 4) DBL_PRECISION hm_init) = Inr False"
  by code_simp

text \<open>
  C10. For a precision below 1, \<^verbatim>\<open>dble_equal_to\<close> reports the invalid precision and
  answers false without comparing, and \<^verbatim>\<open>dble_not_equal\<close> turns that into true: for
  all \<open>x\<close> and \<open>y\<close>, also for \<open>y = x\<close>.
\<close>

theorem dble_not_equal_invalid_precision:
  "p < 1 \<Longrightarrow>
   dble_equal_to x y p s =
     Inr (False, HARKLE_ERROR ''Harklemath'' ''dble_greater_than'' ''Invalid precision'' s) \<and>
   dble_not_equal x y p s =
     Inr (True, HARKLE_ERROR ''Harklemath'' ''dble_greater_than'' ''Invalid precision'' s) \<and>
   map_sum id fst (dble_not_equal x x p s) = Inr True"
  by (simp add: dble_not_equal_def dble_equal_to_def)

theorem dble_not_equal_invalid_precision_witness:
  "(0::int) < 1 \<and> map_sum id fst (dble_not_equal d_one d_one 0 hm_init) = Inr True"
  using dble_not_equal_invalid_precision [of 0 d_one d_one hm_init]
  by simp

subsection \<open>Rounding\<close>

lemma int_max_times_one: "fmul (double_of_int INT_MAX) d_one = double_of_int INT_MAX"
  by code_simp

lemma int_min_times_one: "fmul (double_of_int INT_MIN) d_one = double_of_int INT_MIN"
  by code_simp

lemma double_of_int_bounds:
  "double_of_int INT_MAX = Fin False 2147483647 0" "double_of_int INT_MIN = Fin True 1 31"
  by code_simp+

text \<open>
  C9. A double above \<^verbatim>\<open>INT_MAX\<close> or below \<^verbatim>\<open>INT_MIN\<close>, an infinity included, makes
  \<^verbatim>\<open>round_a_dble\<close> return 0 in every rounding direction; the state is the old one with
  one report added, and the rounding direction of the environment is not touched.
\<close>

theorem round_a_dble_out_of_range:
  "fgt roundMe (double_of_int INT_MAX) \<or> flt roundMe (double_of_int INT_MIN) \<Longrightarrow>
   round_a_dble roundMe rndDir s =
     (0, HARKLE_ERROR ''Harklemath'' ''round_a_dble''
           (if fgt roundMe (double_of_int INT_MAX) then ''int overflow'' else ''int underflow'') s)"
  by (auto simp: round_a_dble_def int_max_times_one int_min_times_one Let_def)

theorem round_a_dble_out_of_range_witness:
  "fgt (Fin False 1 31) (double_of_int INT_MAX) \<and>
   fst (round_a_dble (Fin False 1 31) HM_IN hm_init) = 0 \<and>
   reports (snd (round_a_dble (Fin False 1 31) HM_IN hm_init)) =
     [HarkleError ''Harklemath'' ''round_a_dble'' ''int overflow'']"
proof -
  have h: "fgt (Fin False 1 31) (double_of_int INT_MAX)" by code_simp
  then show ?thesis
    using round_a_dble_out_of_range [of "Fin False 1 31" HM_IN hm_init]
    by (simp add: hm_init_def)
qed

lemma fesetround_valid:
  "mode = FE_TONEAREST \<or> mode = FE_DOWNWARD \<or> mode = FE_UPWARD \<or> mode = FE_TOWARDZERO \<Longrightarrow>
   fesetround mode s = (0, s\<lparr>fe_round := mode\<rparr>)"
  by (simp add: fesetround_def)

lemma fesetround_line_mem [simp]:
  "line_mem (snd (fesetround mode s)) = line_mem s"
  "int_mem (snd (fesetround mode s)) = int_mem s"
  by (simp_all add: fesetround_def)

text \<open>
  What \<^verbatim>\<open>round_a_dble\<close> does with a value in the range of \<^verbatim>\<open>int\<close> for the directions
  that go through \<^verbatim>\<open>fesetround\<close>: the result is \<^verbatim>\<open>round\<close> of the value, which rounds
  halfway cases away from zero in every rounding direction of the environment.
\<close>

lemma round_a_dble_in_range:
  assumes "\<not> fgt v (double_of_int INT_MAX)" "\<not> flt v (double_of_int INT_MIN)"
    and "rndDir = HM_RND \<or> rndDir = HM_IN"
  shows "fst (round_a_dble v rndDir s) = int_of_double (c_round v)"
    and "line_mem (snd (round_a_dble v rndDir s)) = line_mem s"
    and "int_mem (snd (round_a_dble v rndDir s)) = int_mem s"
  using assms
  by (auto simp: round_a_dble_def int_max_times_one int_min_times_one Let_def fesetround_def
      fegetround_def HM_RND_def HM_IN_def HM_UP_def HM_DWN_def FE_TONEAREST_def
      FE_TOWARDZERO_def FE_UPWARD_def FE_DOWNWARD_def split: prod.splits)

subsection \<open>Solving the point-slope form\<close>

text \<open>
  C4 fails on the code: \<^verbatim>\<open>solve_point_slope_y\<close> computes the rounded value into its
  local \<^verbatim>\<open>unknownY0\<close> and ends without a \<^verbatim>\<open>return\<close> statement, so the call delivers
  no value, for the input below and for every other. For the point (0, 0), the slope 1
  and \<open>x = 1\<close> the local holds 1, which is what the claim expects to be returned; the
  sibling \<^verbatim>\<open>solve_point_slope_x\<close> does return its local. The last line shows the
  direction \<^verbatim>\<open>HM_IN\<close>, towards zero, turning 1.75 into 2.
\<close>

theorem solve_point_slope_y_returns_nothing:
  "fst (solve_point_slope_y 0 0 1 d_one HM_RND hm_init) = None \<and>
   fst (round_a_dble (fadd (fmul d_one (double_of_int (wrap_int (1 - 0)))) (double_of_int 0))
          HM_RND hm_init) = 1 \<and>
   map_sum id fst (solve_point_slope_x 0 0 1 d_one HM_RND hm_init) = Inr (Some 1) \<and>
   valof (Fin False 7 (- 2)) = 7 / 4 \<and>
   fst (round_a_dble (Fin False 7 (- 2)) HM_IN hm_init) = 2"
  by code_simp

theorem solve_point_slope_y_returns_nothing_witness:
  "fst (solve_point_slope_y 0 0 1 d_one HM_RND hm_init) = None \<and>
   map_sum id fst (solve_point_slope_x 0 0 1 d_one HM_RND hm_init) = Inr (Some 1)"
  using solve_point_slope_y_returns_nothing by blast

lemma solve_point_slope_y_None: "fst (solve_point_slope_y x1 y1 x0 slope rndDbl s) = None"
  by (simp add: solve_point_slope_y_def Let_def split_def)

subsection \<open>Truncation and \<^verbatim>\<open>dble_less_than\<close>\<close>



lemma length_digits_of: "length (digits_of n k acc) = k + length acc"
  by (induction n k acc rule: digits_of.induct) (subst digits_of.simps, simp)

lemma length_decimal: "length (decimal n) = num_digits n"
  by (simp add: decimal_def length_digits_of)

lemma format_f_length_integral:
  assumes "0 \<le> e" "0 < p"
  shows "length (format_f p (Fin False m e)) = num_digits (m * 2 ^ nat e) + Suc p"
proof -
  have "m * 10 ^ p * 2 ^ nat e div 10 ^ p = m * 2 ^ nat e"
    by (simp add: mult.assoc mult.left_commute [of "10 ^ p"])
  then show ?thesis
    using assms by (simp add: format_f.simps Let_def length_decimal length_digits_of)
qed

lemma decimal_1074: "decimal 1074 = ''1074''"
  by code_simp

lemma read_1074: "read_digits ''1074f'' 0 0 = (1074, 4, ''f'')"
  by code_simp

lemma sprintf_1074: "sprintf_double ''%.1074f'' val = format_f 1074 val"
  by (simp add: sprintf_double_def read_1074 del: read_digits.simps)

lemma num_digits_facts: "num_digits 100 = 3" "num_digits (2384185791015625 * 2 ^ nat 22) = 23"
  by code_simp+

lemma truncate_double_overflow:
  assumes "0 \<le> e" "1078 \<le> num_digits (m * 2 ^ nat e) + 1075"
  shows "truncate_double (Fin False m e) 1074 s = Inl BufferOverflow"
  using assms
  by (simp add: truncate_double_def Let_def decimal_1074 sprintf_1074
      format_f_length_integral dbleBuff_size_def)

text \<open>
  C5 fails on the code for the precision 1074, which \<^verbatim>\<open>truncate_double\<close> accepts, and
  an \<open>x\<close> of three or more integer digits: \<^verbatim>\<open>%.1074f\<close> prints \<open>x = 10\<^sup>2\<^sup>2\<close> as 1098
  characters (and 100 as 1078), which with the terminating zero byte is more than the
  1078 bytes of \<^verbatim>\<open>dbleBuff\<close>. The call writes behind the buffer instead of answering.
\<close>

theorem dble_less_than_overflows_buffer:
  "valof (Fin False 2384185791015625 22) = 10 ^ 22 \<and> is_double (Fin False 2384185791015625 22) \<and>
   length (format_f 1074 (Fin False 2384185791015625 22)) = 1098 \<and> dbleBuff_size = 1078 \<and>
   dble_less_than (Fin False 2384185791015625 22) (Fin False 0 0) 1074 hm_init =
     Inl BufferOverflow \<and>
   valof (Fin False 25 2) = 100 \<and>
   dble_less_than (Fin False 25 2) (Fin False 0 0) 1074 hm_init = Inl BufferOverflow"
proof -
  have "valof (Fin False 2384185791015625 22) = 10 ^ 22 \<and>
      is_double (Fin False 2384185791015625 22) \<and> valof (Fin False 25 2) = 100"
    by code_simp
  moreover have "length (format_f 1074 (Fin False 2384185791015625 22)) = 1098"
    by (simp add: format_f_length_integral num_digits_facts del: power_numeral nat_numeral)
  moreover have "dbleBuff_size = 1078" by (simp add: dbleBuff_size_def)
  moreover have "truncate_double (Fin False 2384185791015625 22) 1074 hm_init = Inl BufferOverflow"
    by (rule truncate_double_overflow) (simp_all add: num_digits_facts del: power_numeral nat_numeral)
  moreover have "truncate_double (Fin False 25 2) 1074 hm_init = Inl BufferOverflow"
    by (rule truncate_double_overflow) (simp_all add: num_digits_facts)
  ultimately show ?thesis
    by (simp add: dble_less_than_def)
qed

subsection \<open>The area of a triangle\<close>






subsection \<open>The midpoint of a line\<close>

lemma set_coord_simps [simp]:
  "line_mem (set_xCoord a v s) = (line_mem s)(a := (line_mem s a)\<lparr>xCoord := v\<rparr>)"
  "line_mem (set_yCoord a v s) = (line_mem s)(a := (line_mem s a)\<lparr>yCoord := v\<rparr>)"
  "line_mem (set_dist a d s) = (line_mem s)(a := (line_mem s a)\<lparr>dist := d\<rparr>)"
  "int_mem (set_xCoord a v s) = int_mem s"
  "int_mem (set_yCoord a v s) = int_mem s"
  "int_mem (set_dist a d s) = int_mem s"
  by (simp_all add: set_xCoord_def set_yCoord_def set_dist_def)

lemma mid_point_facts:
  "wrap_int 4 = 4" "wrap_int 0 = 0" "wrap_int 2 = 2" "c_abs 4 = 4" "c_abs 0 = 0"
  "double_of_int 4 = Fin False 1 2" "double_of_int 0 = Fin False 0 0"
  "fmul d_half (Fin False 1 2) = Fin False 1 1" "fmul d_half (Fin False 0 0) = Fin False 0 0"
  "\<not> fgt (Fin False 1 1) (double_of_int INT_MAX)" "\<not> flt (Fin False 1 1) (double_of_int INT_MIN)"
  "\<not> fgt (Fin False 0 0) (double_of_int INT_MAX)" "\<not> flt (Fin False 0 0) (double_of_int INT_MIN)"
  "int_of_double (c_round (Fin False 1 1)) = 2" "int_of_double (c_round (Fin False 0 0)) = 0"
  "fdiv (calc_int_point_dist 0 0 4 0) (double_of_int 2) = Fin False 1 1"
  "valof (Fin False 1 1) = 2"
  by code_simp+

lemma determine_mid_point_fails:
  "fst (determine_mid_point p1 p2 mp rndDbl s) = False \<longleftrightarrow>
     p1 = None \<or> p2 = None \<or> mp = None \<or> p1 = p2 \<or>
     (\<exists>a b. p1 = Some a \<and> p2 = Some b \<and>
            xCoord (line_mem s a) = xCoord (line_mem s b) \<and>
            yCoord (line_mem s a) = yCoord (line_mem s b))"
  by (auto simp: determine_mid_point_def Let_def split_def split: option.splits)

lemma determine_mid_point_failure_state:
  assumes "fst (determine_mid_point p1 p2 mp rndDbl s) = False"
  shows "\<exists>msg. snd (determine_mid_point p1 p2 mp rndDbl s) =
           HARKLE_ERROR ''Harkleswarm'' ''determine_mid_point'' msg s"
  using assms
  by (auto simp: determine_mid_point_def Let_def split_def split: option.splits if_splits)

lemma determine_mid_point_0_4:
  assumes "a1 \<noteq> a2" "am \<noteq> a1" "am \<noteq> a2"
    and "xCoord (line_mem s a1) = 0" "yCoord (line_mem s a1) = 0"
    and "xCoord (line_mem s a2) = 4" "yCoord (line_mem s a2) = 0"
  shows "fst (determine_mid_point (Some a1) (Some a2) (Some am) HM_RND s) = True"
    and "xCoord (line_mem (snd (determine_mid_point (Some a1) (Some a2) (Some am) HM_RND s)) am) = 2"
    and "yCoord (line_mem (snd (determine_mid_point (Some a1) (Some a2) (Some am) HM_RND s)) am) = 0"
    and "dist (line_mem (snd (determine_mid_point (Some a1) (Some a2) (Some am) HM_RND s)) am) =
           Fin False 1 1"
  using assms
  by (simp_all add: determine_mid_point_def Let_def split_def mid_point_facts
      round_a_dble_in_range)

text \<open>
  C7. \<^verbatim>\<open>determine_mid_point\<close> returns false exactly when one of its three pointers is
  null, when the two point pointers are the same, or when the two points have the same
  coordinates; it then adds one report and changes nothing else, so no object is
  written. For the points (0, 0) and (4, 0) in two objects, a third object for the
  result and the direction \<^verbatim>\<open>HM_RND\<close> it returns true and the result holds \<open>x = 2\<close>,
  \<open>y = 0\<close> and the distance 2.
\<close>

theorem determine_mid_point_spec:
  "(fst (determine_mid_point p1 p2 mp rndDbl s) = False \<longleftrightarrow>
      p1 = None \<or> p2 = None \<or> mp = None \<or> p1 = p2 \<or>
      (\<exists>a b. p1 = Some a \<and> p2 = Some b \<and>
             xCoord (line_mem s a) = xCoord (line_mem s b) \<and>
             yCoord (line_mem s a) = yCoord (line_mem s b))) \<and>
   (fst (determine_mid_point p1 p2 mp rndDbl s) = False \<longrightarrow>
      (\<exists>msg. snd (determine_mid_point p1 p2 mp rndDbl s) =
              HARKLE_ERROR ''Harkleswarm'' ''determine_mid_point'' msg s) \<and>
      line_mem (snd (determine_mid_point p1 p2 mp rndDbl s)) = line_mem s) \<and>
   (a1 \<noteq> a2 \<and> am \<noteq> a1 \<and> am \<noteq> a2 \<and>
    xCoord (line_mem s a1) = 0 \<and> yCoord (line_mem s a1) = 0 \<and>
    xCoord (line_mem s a2) = 4 \<and> yCoord (line_mem s a2) = 0 \<longrightarrow>
      fst (determine_mid_point (Some a1) (Some a2) (Some am) HM_RND s) = True \<and>
      xCoord (line_mem (snd (determine_mid_point (Some a1) (Some a2) (Some am) HM_RND s)) am) = 2 \<and>
      yCoord (line_mem (snd (determine_mid_point (Some a1) (Some a2) (Some am) HM_RND s)) am) = 0 \<and>
      dist (line_mem (snd (determine_mid_point (Some a1) (Some a2) (Some am) HM_RND s)) am) =
        Fin False 1 1) \<and>
   valof (Fin False 1 1) = 2"
proof -
  have "fst (determine_mid_point p1 p2 mp rndDbl s) = False \<longrightarrow>
      (\<exists>msg. snd (determine_mid_point p1 p2 mp rndDbl s) =
              HARKLE_ERROR ''Harkleswarm'' ''determine_mid_point'' msg s) \<and>
      line_mem (snd (determine_mid_point p1 p2 mp rndDbl s)) = line_mem s"
    using determine_mid_point_failure_state [of p1 p2 mp rndDbl s] by auto
  then show ?thesis
    using determine_mid_point_fails [of p1 p2 mp rndDbl s]
      determine_mid_point_0_4 [of a1 a2 am s] mid_point_facts(17)
    by blast
qed

theorem determine_mid_point_spec_witness:
  "fst (determine_mid_point None (Some 2) (Some 3) HM_RND two_points) = False \<and>
   line_mem (snd (determine_mid_point None (Some 2) (Some 3) HM_RND two_points)) =
     line_mem two_points \<and>
   (1::nat) \<noteq> 2 \<and> (3::nat) \<noteq> 1 \<and> (3::nat) \<noteq> 2 \<and>
   xCoord (line_mem two_points 1) = 0 \<and> yCoord (line_mem two_points 1) = 0 \<and>
   xCoord (line_mem two_points 2) = 4 \<and> yCoord (line_mem two_points 2) = 0 \<and>
   fst (determine_mid_point (Some 1) (Some 2) (Some 3) HM_RND two_points) = True \<and>
   xCoord (line_mem (snd (determine_mid_point (Some 1) (Some 2) (Some 3) HM_RND two_points)) 3) = 2 \<and>
   yCoord (line_mem (snd (determine_mid_point (Some 1) (Some 2) (Some 3) HM_RND two_points)) 3) = 0 \<and>
   dist (line_mem (snd (determine_mid_point (Some 1) (Some 2) (Some 3) HM_RND two_points)) 3) =
     Fin False 1 1"
proof -
  have pts: "xCoord (line_mem two_points 1) = 0 \<and> yCoord (line_mem two_points 1) = 0 \<and>
    xCoord (line_mem two_points 2) = 4 \<and> yCoord (line_mem two_points 2) = 0"
    by (simp add: two_points_def hm_init_def)
  show ?thesis
    using determine_mid_point_spec [of None "Some 2" "Some 3" HM_RND two_points 1 2 3]
      determine_mid_point_spec [of "Some 1" "Some 2" "Some 3" HM_RND two_points 1 2 3] pts
    by simp
qed

subsection \<open>The points of an ellipse\<close>

lemma statics_ok_updates [simp]:
  "statics_ok (s\<lparr>int_mem := m\<rparr>) = statics_ok s"
  "statics_ok (s\<lparr>calloc_fail := n\<rparr>) = statics_ok s"
  "statics_ok (s\<lparr>reports := r\<rparr>) = statics_ok s"
  by (simp_all add: statics_ok_def)


















subsection \<open>Rectangle centring\<close>

text \<open>
  C8. \<^verbatim>\<open>determine_center\<close> returns false and leaves every \<^verbatim>\<open>int\<close> object, so both
  outputs, as it was when the width or the height is below 3. With two output pointers
  it returns true and stores (3, 3) for a 5 by 5 rectangle biased to the upper left,
  (2, 2) for a 4 by 4 rectangle biased to the upper left and (3, 3) for a 4 by 4
  rectangle biased to the lower right.
\<close>

theorem determine_center_spec:
  "(width < 3 \<or> height < 3 \<longrightarrow>
      fst (determine_center width height xp yp orientWin s) = False \<and>
      int_mem (snd (determine_center width height xp yp orientWin s)) = int_mem s) \<and>
   (fst (determine_center 5 5 (Some xa) (Some ya) HM_UP_LEFT s) = True \<and>
    int_mem (snd (determine_center 5 5 (Some xa) (Some ya) HM_UP_LEFT s)) xa = 3 \<and>
    int_mem (snd (determine_center 5 5 (Some xa) (Some ya) HM_UP_LEFT s)) ya = 3) \<and>
   (fst (determine_center 4 4 (Some xa) (Some ya) HM_UP_LEFT s) = True \<and>
    int_mem (snd (determine_center 4 4 (Some xa) (Some ya) HM_UP_LEFT s)) xa = 2 \<and>
    int_mem (snd (determine_center 4 4 (Some xa) (Some ya) HM_UP_LEFT s)) ya = 2) \<and>
   (fst (determine_center 4 4 (Some xa) (Some ya) HM_LOW_RIGHT s) = True \<and>
    int_mem (snd (determine_center 4 4 (Some xa) (Some ya) HM_LOW_RIGHT s)) xa = 3 \<and>
    int_mem (snd (determine_center 4 4 (Some xa) (Some ya) HM_LOW_RIGHT s)) ya = 3)"
proof -
  have fail: "width < 3 \<or> height < 3 \<longrightarrow>
      fst (determine_center width height xp yp orientWin s) = False \<and>
      int_mem (snd (determine_center width height xp yp orientWin s)) = int_mem s"
    by (auto simp: determine_center_def)
  have c55: "fst (determine_center 5 5 (Some xa) (Some ya) HM_UP_LEFT s) = True \<and>
    int_mem (snd (determine_center 5 5 (Some xa) (Some ya) HM_UP_LEFT s)) xa = 3 \<and>
    int_mem (snd (determine_center 5 5 (Some xa) (Some ya) HM_UP_LEFT s)) ya = 3"
    by (simp add: determine_center_def Let_def HM_UP_LEFT_def HM_UP_RIGHT_def
        HM_LOW_LEFT_def HM_LOW_RIGHT_def signed_divide_int_def)
  have c44: "fst (determine_center 4 4 (Some xa) (Some ya) HM_UP_LEFT s) = True \<and>
    int_mem (snd (determine_center 4 4 (Some xa) (Some ya) HM_UP_LEFT s)) xa = 2 \<and>
    int_mem (snd (determine_center 4 4 (Some xa) (Some ya) HM_UP_LEFT s)) ya = 2"
    by (simp add: determine_center_def Let_def HM_UP_LEFT_def HM_UP_RIGHT_def
        HM_LOW_LEFT_def HM_LOW_RIGHT_def signed_divide_int_def)
  have c44lr: "fst (determine_center 4 4 (Some xa) (Some ya) HM_LOW_RIGHT s) = True \<and>
    int_mem (snd (determine_center 4 4 (Some xa) (Some ya) HM_LOW_RIGHT s)) xa = 3 \<and>
    int_mem (snd (determine_center 4 4 (Some xa) (Some ya) HM_LOW_RIGHT s)) ya = 3"
    by (simp add: determine_center_def Let_def HM_UP_LEFT_def HM_UP_RIGHT_def
        HM_LOW_LEFT_def HM_LOW_RIGHT_def signed_divide_int_def)
  from fail c55 c44 c44lr show ?thesis by blast
qed

theorem determine_center_spec_witness:
  "((2::int) < 3 \<or> (5::int) < 3) \<and>
   fst (determine_center 2 5 (Some 0) (Some 1) HM_UP_LEFT hm_init) = False \<and>
   int_mem (snd (determine_center 2 5 (Some 0) (Some 1) HM_UP_LEFT hm_init)) = int_mem hm_init \<and>
   int_mem (snd (determine_center 5 5 (Some 0) (Some 1) HM_UP_LEFT hm_init)) 0 = 3 \<and>
   int_mem (snd (determine_center 4 4 (Some 0) (Some 1) HM_LOW_RIGHT hm_init)) 1 = 3"
  using determine_center_spec [of 2 5 "Some 0" "Some 1" HM_UP_LEFT hm_init 0 1]
  by simp

end
